theory Spec2Isabelle
  imports Complex_Main
begin

section \<open>Data model\<close>

text \<open>
  Python floats are modelled as \<^typ>\<open>real\<close>: finite values, computed exactly, with one
  exception: the weighted sum of \<open>combine_hazards\<close> rounds the result of every operation
  (see there). Where numpy or pandas would continue with \<open>nan\<close> or \<open>inf\<close> (a division by
  zero, a statistic of an empty series) the model has a branch of its own, since
  \<^typ>\<open>real\<close> has no such value.
\<close>

record HazardContext =
  state :: string
  region :: string
  month :: int
  population_density :: real
  poverty_rate :: real
  previous_events_30d :: int
  previous_events_90d :: int
  distance_to_water_km :: real
  elevation_m :: real
  urban_rural :: string
  infrastructure_quality :: real
  early_warning_coverage :: real

text \<open>
  The exceptions the modelled code can raise. \<open>NonFinite\<close> is not an exception: it marks a
  run in which numpy divides by zero and carries on with \<open>inf\<close> or \<open>nan\<close>.
\<close>

datatype error = ValueError | KeyError | NotFittedError | AttributeError | NonFinite

section \<open>production\_forecast\_engine.py\<close>

subsection \<open>QualityController.validate\_inputs\<close>

text \<open>
  What \<open>validate_inputs\<close> reads of its two arguments: \<open>hazard.event_id\<close>, the stored
  entries \<open>hazard.intensity.data\<close> and the row count \<open>hazard.intensity.shape[0]\<close> of the
  sparse intensity matrix, the \<open>value\<close> column of \<open>exposure.gdf\<close> (one entry per row) and
  whether the frame has the attribute \<open>centr_\<close>.
\<close>

record Hazard =
  event_id :: "int list"
  intensity_data :: "real list"
  intensity_rows :: nat

record Exposures =
  gdf_value :: "real list"
  gdf_has_centr :: bool

definition digit_char :: "nat \<Rightarrow> char" where
  "digit_char n = ''0123456789'' ! n"

fun str_nat :: "nat \<Rightarrow> string" where
  "str_nat n = (if n < 10 then [digit_char n] else str_nat (n div 10) @ [digit_char (n mod 10)])"

declare str_nat.simps [simp del]

definition validate_inputs :: "Hazard \<Rightarrow> Exposures \<Rightarrow> bool \<times> string list" where
  "validate_inputs hazard exposure =
    (if length (event_id hazard) = 0 then (False, [''Hazard has no events''])
     else
       let warnings = [];
           warnings = (if list_all (\<lambda>x. x = 0) (intensity_data hazard)
                       then warnings @ [''Hazard intensity is all zeros''] else warnings);
           warnings = (if intensity_rows hazard < 5
                       then warnings @ [''Low ensemble size: '' @ str_nat (intensity_rows hazard)]
                       else warnings)
       in if length (gdf_value exposure) = 0 then (False, [''Exposure has no data''])
          else if sum_list (gdf_value exposure) = 0 then (False, [''Exposure values sum to zero''])
          else
            let warnings = (if \<not> gdf_has_centr exposure
                            then warnings @ [''Exposure not assigned to centroids'']
                            else warnings)
            in (True, warnings))"

text \<open>Python's \<open>needle in haystack\<close> on strings.\<close>

definition str_contains :: "string \<Rightarrow> string \<Rightarrow> bool" where
  "str_contains needle haystack =
    list_ex (\<lambda>i. take (length needle) (drop i haystack) = needle) [0..<Suc (length haystack)]"

subsection \<open>AlertManager\<close>

text \<open>
  \<open>config.forecast.displacement_alert_levels\<close>: the \<open>Config\<close> class is not part of the
  sources, so the four breakpoints the code reads from it are a parameter.
\<close>

record alert_levels =
  watch :: real
  advisory :: real
  warning :: real
  emergency :: real

definition determine_alert_level :: "alert_levels \<Rightarrow> real \<Rightarrow> real \<Rightarrow> string" where
  "determine_alert_level thresholds mean_disp p90_disp =
    (if p90_disp \<ge> emergency thresholds then ''emergency''
     else if p90_disp \<ge> warning thresholds then ''warning''
     else if mean_disp \<ge> advisory thresholds then ''advisory''
     else if mean_disp \<ge> watch thresholds then ''watch''
     else ''none'')"

text \<open>The order \<open>none < watch < advisory < warning < emergency\<close> of the alert levels.\<close>

definition level_rank :: "string \<Rightarrow> nat" where
  "level_rank l =
    (if l = ''emergency'' then 4 else if l = ''warning'' then 3
     else if l = ''advisory'' then 2 else if l = ''watch'' then 1 else 0)"

text \<open>
  pandas statistics of the column \<open>forecasted_displacement\<close>; \<open>None\<close> is \<open>nan\<close>
  (an empty column, or fewer than two values for the sample standard deviation).
\<close>

definition series_mean :: "real list \<Rightarrow> real option" where
  "series_mean xs = (if xs = [] then None else Some (sum_list xs / real (length xs)))"

definition series_quantile :: "real list \<Rightarrow> real \<Rightarrow> real option" where
  "series_quantile xs q =
    (if xs = [] then None
     else
       let v = sort xs;
           pos = q * real (length xs - 1);
           lo = nat \<lfloor>pos\<rfloor>;
           hi = min (lo + 1) (length xs - 1)
       in Some (v ! lo + (pos - real lo) * (v ! hi - v ! lo)))"

definition series_std :: "real list \<Rightarrow> real option" where
  "series_std xs =
    (if length xs < 2 then None
     else
       let m = sum_list xs / real (length xs)
       in Some (sqrt (sum_list (map (\<lambda>x. (x - m)\<^sup>2) xs) / real (length xs - 1))))"

text \<open>
  \<open>cv\<close> is \<open>nan\<close> when the mean or the deviation is, and \<open>inf\<close> or \<open>nan\<close> when
  \<open>mean + 1\<close> is zero; a comparison with \<open>nan\<close> is false, \<open>inf > 0.8\<close> is true.
\<close>

definition calculate_alert_confidence :: "real list \<Rightarrow> real \<Rightarrow> real" where
  "calculate_alert_confidence forecast_results quality_score =
    (let confidence = quality_score
     in case (series_std forecast_results, series_mean forecast_results) of
          (Some sd, Some m) \<Rightarrow>
            (if m + 1 = 0
             then (if sd > 0 then min 1.0 (confidence * 0.8) else min 1.0 confidence)
             else
               let cv = sd / (m + 1)
               in if cv < 0.3 then min 1.0 (confidence * 1.1)
                  else if cv > 0.8 then min 1.0 (confidence * 0.8)
                  else min 1.0 confidence)
        | _ \<Rightarrow> min 1.0 confidence)"

text \<open>
  \<open>fmt\<close> renders a float as Python's \<open>f"{x:,.0f}"\<close> does; it is a parameter, as is the
  clock reading \<open>timestamp\<close> of \<open>_generate_alert_message\<close>.
\<close>

definition join_comma :: "string list \<Rightarrow> string" where
  "join_comma ss = (case ss of [] \<Rightarrow> [] | s # rest \<Rightarrow> s @ concat (map (\<lambda>t. '', '' @ t) rest))"

definition generate_recommendations ::
  "(real option \<Rightarrow> string) \<Rightarrow> string \<Rightarrow> real option \<Rightarrow> string list \<Rightarrow> string list" where
  "generate_recommendations fmt alert_level displacement states =
    (let actions =
       (if alert_level = ''watch'' then
          [''Monitor situation closely'',
           ''Alert state emergency management agencies'',
           ''Review and update contingency plans'',
           ''Prepare early warning messages'']
        else if alert_level = ''advisory'' then
          [''Activate early warning systems'',
           ''Pre-position emergency supplies'',
           ''Brief response teams'',
           ''Coordinate with humanitarian partners'',
           ''Prepare evacuation routes'']
        else if alert_level = ''warning'' then
          [''Issue public warning announcements'',
           ''Begin evacuation of high-risk areas'',
           ''Activate emergency operations centers'',
           ''Deploy response teams to affected states'',
           ''Open temporary shelters'',
           ''Prepare for '' @ fmt displacement @ '' displaced persons'']
        else if alert_level = ''emergency'' then
          [''IMMEDIATE: Full emergency response activation'',
           ''Mass evacuation of affected areas'',
           ''Request national/international assistance'',
           ''Deploy all available resources'',
           ''Establish emergency coordination mechanisms'',
           ''CRITICAL: Prepare for '' @ fmt displacement @ ''+ displaced persons'']
        else [])
     in if length states \<le> 3
        then actions @ [''Focus on: '' @ join_comma states]
        else actions @ [''Affecting '' @ str_nat (length states)
                          @ '' states - coordinate multi-state response''])"

record AlertDecision =
  alert_level :: string
  should_trigger :: bool
  confidence :: real
  affected_states :: "string list"
  estimated_displacement :: "(string \<times> real option) list"
  recommended_actions :: "string list"
  recipients :: "string list"
  message :: string

text \<open>
  Of \<open>ForecastMetrics\<close> the function reads \<open>confidence_level\<close> and \<open>quality_score\<close>.
  \<open>forecast_results\<close> is the column \<open>forecasted_displacement\<close>, \<open>context\<close> the dictionary
  in insertion order, \<open>alert_recipients\<close> the mapping of \<open>config.alert\<close>, and
  \<open>render\<close> stands for \<open>_generate_alert_message\<close>, whose text depends on the clock.
  With an empty column both statistics are \<open>nan\<close>, every comparison of
  \<open>_determine_alert_level\<close> fails and the level is \<open>none\<close>.
\<close>

record ForecastMetrics =
  quality_score :: real
  confidence_level :: string

definition generate_alert_decision ::
  "alert_levels \<Rightarrow> (string \<rightharpoonup> string list) \<Rightarrow> (real option \<Rightarrow> string) \<Rightarrow>
   (string \<Rightarrow> real option \<Rightarrow> real option \<Rightarrow> string list \<Rightarrow> string list \<Rightarrow> string) \<Rightarrow>
   real list \<Rightarrow> ForecastMetrics \<Rightarrow> (string \<times> HazardContext) list \<Rightarrow> AlertDecision" where
  "generate_alert_decision thresholds alert_recipients fmt render forecast_results metrics context =
    (let mean_disp = series_mean forecast_results;
         p90_disp = series_quantile forecast_results 0.90;
         level = (case (mean_disp, p90_disp) of
                    (Some m, Some p) \<Rightarrow> determine_alert_level thresholds m p
                  | _ \<Rightarrow> ''none'');
         trigger = (level \<in> set [''warning'', ''emergency'']
                    \<and> confidence_level metrics \<in> set [''high'', ''medium'']);
         conf = calculate_alert_confidence forecast_results (quality_score metrics);
         states = map fst context;
         displacement_by_state =
           map (\<lambda>s. (s, map_option (\<lambda>m. m / real (length states)) mean_disp)) states;
         actions = generate_recommendations fmt level mean_disp states;
         rcpts = (case alert_recipients level of
                    Some r \<Rightarrow> r | None \<Rightarrow> [''operations@nema.gov.ng'']);
         msg = render level mean_disp p90_disp states actions
     in \<lparr>alert_level = level, should_trigger = trigger, confidence = conf,
         affected_states = states, estimated_displacement = displacement_by_state,
         recommended_actions = actions, recipients = rcpts, message = msg\<rparr>)"

section \<open>advanced\_multi\_hazard.py\<close>

subsection \<open>MLEnhancedVulnerability\<close>

text \<open>
  \<open>config.vulnerability\<close>: the two regional tables (a dictionary of dictionaries, read at
  the key \<open>p50\<close>) and the interaction coefficient. The \<open>Config\<close> class is not part of the
  sources, so its values are a parameter.
\<close>

record VulnerabilityConfig =
  flood_params :: "string \<rightharpoonup> (string \<rightharpoonup> real)"
  conflict_params :: "string \<rightharpoonup> (string \<rightharpoonup> real)"
  flood_conflict_interaction :: real

text \<open>
  A fitted regressor maps a feature row to a prediction, a fitted scaler a feature row to
  a scaled row. \<open>StandardScaler()\<close> as the constructor leaves it is not fitted
  (\<open>None\<close>): its \<open>transform\<close> raises \<open>NotFittedError\<close>.
\<close>

type_synonym regressor = "real list \<Rightarrow> real"

record MLEnhancedVulnerability =
  flood_model :: "regressor option"
  conflict_model :: "regressor option"
  scaler :: "(real list \<Rightarrow> real list) option"
  trained :: bool

text \<open>
  What \<open>_load_models\<close> finds at a model path: no file (\<open>exists()\<close> is false), a file
  that \<open>joblib.load\<close> reads, or a file on which \<open>joblib.load\<close> raises.
\<close>

datatype model_file = Absent | Stored regressor | Unreadable

definition load_models :: "model_file \<Rightarrow> model_file \<Rightarrow> MLEnhancedVulnerability \<Rightarrow> MLEnhancedVulnerability" where
  "load_models flood_file conflict_file self =
    (if flood_file = Unreadable then self\<lparr>trained := False\<rparr>
     else
       let self = (case flood_file of Stored m \<Rightarrow> self\<lparr>flood_model := Some m\<rparr> | _ \<Rightarrow> self)
       in if conflict_file = Unreadable then self\<lparr>trained := False\<rparr>
          else
            let self = (case conflict_file of
                          Stored m \<Rightarrow> self\<lparr>conflict_model := Some m\<rparr> | _ \<Rightarrow> self)
            in self\<lparr>trained := True\<rparr>)"

text \<open>The constructor \<open>__init__\<close>.\<close>

definition init_vulnerability :: "model_file \<Rightarrow> model_file \<Rightarrow> MLEnhancedVulnerability" where
  "init_vulnerability flood_file conflict_file =
    load_models flood_file conflict_file
      \<lparr>flood_model = None, conflict_model = None, scaler = None, trained = False\<rparr>"

text \<open>
  \<open>dict.get(region, table['North_Central'])\<close> evaluates its default first: a table
  without the key \<open>North_Central\<close> raises \<open>KeyError\<close> for every region.
\<close>

definition get_regional_default :: "VulnerabilityConfig \<Rightarrow> string \<Rightarrow> string \<Rightarrow> error + real" where
  "get_regional_default config rgn hazard_type =
    (let table = (if hazard_type = ''flood'' then flood_params config else conflict_params config)
     in case table ''North_Central'' of
          None \<Rightarrow> Inl KeyError
        | Some dflt \<Rightarrow>
          (let params = (case table rgn of Some p \<Rightarrow> p | None \<Rightarrow> dflt)
           in (case params ''p50'' of None \<Rightarrow> Inl KeyError | Some v \<Rightarrow> Inr v)))"

definition np_clip :: "real \<Rightarrow> real \<Rightarrow> real \<Rightarrow> real" where
  "np_clip x lo hi = min (max x lo) hi"

definition urban_rural_map :: "string \<Rightarrow> real" where
  "urban_rural_map s =
    (if s = ''urban'' then 0 else if s = ''peri-urban'' then 1 else if s = ''rural'' then 2 else 1)"

definition predict_vulnerability ::
  "VulnerabilityConfig \<Rightarrow> MLEnhancedVulnerability \<Rightarrow> HazardContext \<Rightarrow> string \<Rightarrow> error + real" where
  "predict_vulnerability config self context hazard_type =
    (if \<not> trained self then get_regional_default config (region context) hazard_type
     else
       let features =
             [population_density context, poverty_rate context,
              real_of_int (previous_events_30d context), distance_to_water_km context,
              elevation_m context, infrastructure_quality context,
              early_warning_coverage context, real_of_int (month context),
              urban_rural_map (urban_rural context)]
       in case scaler self of
            None \<Rightarrow> Inl NotFittedError
          | Some transform \<Rightarrow>
            (let features_scaled = transform features;
                 model = (if hazard_type = ''flood'' then flood_model self else conflict_model self)
             in (case model of
                   None \<Rightarrow> Inl AttributeError
                 | Some predict \<Rightarrow>
                   (let vulnerability = predict features_scaled
                    in if hazard_type = ''flood'' then Inr (np_clip vulnerability 0.05 2.0)
                       else Inr (np_clip vulnerability 5 100)))))"

subsection \<open>AdaptiveImpactFunction\<close>

definition adjust_for_context :: "real \<Rightarrow> HazardContext \<Rightarrow> real" where
  "adjust_for_context intensity_half context =
    (let adjustment = 1.0;
         adjustment = (if infrastructure_quality context < 0.3 then adjustment * 0.85
                       else if infrastructure_quality context > 0.7 then adjustment * 1.15
                       else adjustment);
         adjustment = (if early_warning_coverage context > 0.7 then adjustment * 1.25
                       else if early_warning_coverage context < 0.3 then adjustment * 0.9
                       else adjustment);
         adjustment = (if urban_rural context = ''urban'' then adjustment * 1.1
                       else if urban_rural context = ''rural'' then adjustment * 0.95
                       else adjustment);
         adjustment = (if poverty_rate context > 0.5 then adjustment * 0.85 else adjustment)
     in intensity_half * adjustment)"

text \<open>The context of the module's own example run and of the test suite's \<open>setUp\<close>.\<close>

definition benue_context :: HazardContext where
  "benue_context =
    \<lparr>state = ''Benue'', region = ''North_Central'', month = 9, population_density = 150,
     poverty_rate = 0.45, previous_events_30d = 2, previous_events_90d = 5,
     distance_to_water_km = 2.5, elevation_m = 120, urban_rural = ''rural'',
     infrastructure_quality = 0.35, early_warning_coverage = 0.55\<rparr>"

subsection \<open>numpy arrays\<close>

text \<open>
  A one-dimensional float array is a list. An operation on two arrays broadcasts: equal
  lengths combine elementwise, an array of length one is stretched to the other's length,
  and any other pair of lengths raises \<open>ValueError\<close>. The in-place \<open>+=\<close> keeps the shape
  of its left operand, so only the right operand may be stretched.
\<close>

definition bind_e :: "error + 'a \<Rightarrow> ('a \<Rightarrow> error + 'b) \<Rightarrow> error + 'b" where
  "bind_e r f = (case r of Inl e \<Rightarrow> Inl e | Inr v \<Rightarrow> f v)"

definition np_binop :: "('a \<Rightarrow> 'b \<Rightarrow> 'c) \<Rightarrow> 'a list \<Rightarrow> 'b list \<Rightarrow> error + 'c list" where
  "np_binop f xs ys =
    (if length xs = length ys then Inr (map2 f xs ys)
     else if length xs = 1 then Inr (map (f (hd xs)) ys)
     else if length ys = 1 then Inr (map (\<lambda>x. f x (hd ys)) xs)
     else Inl ValueError)"

definition np_iadd :: "real list \<Rightarrow> real list \<Rightarrow> error + real list" where
  "np_iadd xs ys =
    (if length ys = length xs then Inr (map2 (+) xs ys)
     else if length ys = 1 then Inr (map (\<lambda>x. x + hd ys) xs)
     else Inl ValueError)"

text \<open>\<open>np.max\<close> raises \<open>ValueError\<close> on an empty array; \<open>np.mean\<close> is used on non-empty ones.\<close>

definition np_max :: "real list \<Rightarrow> error + real" where
  "np_max xs = (case xs of [] \<Rightarrow> Inl ValueError | x # rest \<Rightarrow> Inr (fold max rest x))"

definition np_mean :: "real list \<Rightarrow> real" where
  "np_mean xs = sum_list xs / real (length xs)"

definition eps :: real where
  "eps = 1 / 10 ^ 10"

subsection \<open>MultiHazardInteraction\<close>

datatype metric = Text string | Number real

text \<open>
  \<open>intensity / (np.max(intensity) + 1e-10)\<close>; a zero divisor leaves the real-valued model.
\<close>

definition normalize :: "real list \<Rightarrow> error + real list" where
  "normalize intensity =
    bind_e (np_max intensity) (\<lambda>m.
      if m + eps = 0 then Inl NonFinite else Inr (map (\<lambda>x. x / (m + eps)) intensity))"

text \<open>
  The interaction strength of \<open>_sophisticated_combination\<close>: the configured coefficient,
  raised for weak infrastructure and for high poverty.
\<close>

definition interaction_base :: "VulnerabilityConfig \<Rightarrow> HazardContext \<Rightarrow> real" where
  "interaction_base config context =
    (let interaction_base = flood_conflict_interaction config;
         interaction_base = (if infrastructure_quality context < 0.3
                             then interaction_base * 1.2 else interaction_base);
         interaction_base = (if poverty_rate context > 0.5
                             then interaction_base * 1.15 else interaction_base)
     in interaction_base)"

definition sophisticated_combination ::
  "VulnerabilityConfig \<Rightarrow> real list \<Rightarrow> real list \<Rightarrow> real list \<Rightarrow> real list \<Rightarrow> HazardContext
     \<Rightarrow> error + (real list \<times> (string \<times> metric) list)" where
  "sophisticated_combination config flood_intensity conflict_intensity flood_impact conflict_impact context =
    bind_e (normalize flood_intensity) (\<lambda>flood_norm.
    bind_e (normalize conflict_intensity) (\<lambda>conflict_norm.
    bind_e (np_binop max flood_impact conflict_impact) (\<lambda>base_combined.
    bind_e (np_binop (\<lambda>a b. a > 0.1 \<and> b > 0.1) flood_norm conflict_norm) (\<lambda>both_present.
    bind_e
      (if list_ex (\<lambda>b. b) both_present then
         bind_e (np_binop (\<lambda>a b. 1 + (interaction_base config context - 1) * a * b)
                   flood_norm conflict_norm)
           (\<lambda>compounding_factor.
              bind_e (np_binop (*) base_combined compounding_factor)
                (\<lambda>combined. Inr (combined, np_mean compounding_factor)))
       else Inr (map (\<lambda>x. x * 1.0) base_combined, 1.0))
      (\<lambda>(combined, compounding_mean).
    bind_e
      (if np_mean flood_norm > 0.5 then
         let cascade_prob = 0.15 * np_mean flood_norm * (1 - infrastructure_quality context)
         in bind_e (np_iadd combined (map (\<lambda>c. cascade_prob * c * 0.3) conflict_impact))
              (\<lambda>combined. Inr (combined, cascade_prob))
       else Inr (combined, 0))
      (\<lambda>(combined, cascading_flood_to_conflict).
    bind_e
      (if np_mean conflict_norm > 0.5 then
         let cascade_prob = 0.10 * np_mean conflict_norm
         in bind_e (np_iadd combined (map (\<lambda>f. cascade_prob * f * 0.2) flood_impact))
              (\<lambda>combined. Inr (combined, cascade_prob))
       else Inr (combined, 0))
      (\<lambda>(combined, cascading_conflict_to_flood).
    let combined = map (\<lambda>x. np_clip x 0 0.95) combined
    in bind_e (np_max combined) (\<lambda>max_rate.
         Inr (combined,
              [(''method'', Text ''sophisticated''),
               (''base_interaction'', Number (flood_conflict_interaction config)),
               (''compounding_factor'', Number compounding_mean),
               (''cascade_flood_to_conflict'', Number cascading_flood_to_conflict),
               (''cascade_conflict_to_flood'', Number cascading_conflict_to_flood),
               (''max_displacement_rate'', Number max_rate)])))))))))"

text \<open>
  \<open>combine_hazards\<close>. The branch \<open>weighted_sum\<close> returns
  \<open>flood_weight * flood_impact + conflict_weight * conflict_impact\<close> as computed, with no
  clipping after it, so its value is what binary64 arithmetic makes of these operations:
  each of them rounds its exact result, and so does the literal \<open>1e-10\<close>. The rounding
  function is the parameter \<open>rnd\<close>, about which nothing is assumed; the branch applies it
  to the result of every operation, in the order of the source. \<open>simple_max\<close> performs no
  arithmetic, and the \<open>sophisticated\<close> branch ends with a clip.
\<close>

definition combine_hazards ::
  "(real \<Rightarrow> real) \<Rightarrow> VulnerabilityConfig \<Rightarrow> real list \<Rightarrow> real list \<Rightarrow> real list \<Rightarrow> real list
     \<Rightarrow> HazardContext \<Rightarrow> string \<Rightarrow> error + (real list \<times> (string \<times> metric) list)" where
  "combine_hazards rnd config flood_intensity conflict_intensity flood_impact conflict_impact context method =
    (if method = ''simple_max'' then
       bind_e (np_binop max flood_impact conflict_impact) (\<lambda>combined.
         Inr (combined, [(''method'', Text ''max''), (''interaction'', Number 0)]))
     else if method = ''weighted_sum'' then
       bind_e (np_binop (\<lambda>a b. rnd (a + b)) flood_intensity conflict_intensity) (\<lambda>total.
       let denominator = map (\<lambda>t. rnd (t + rnd eps)) total
       in if list_ex (\<lambda>d. d = 0) denominator then Inl NonFinite
          else
            bind_e (np_binop (\<lambda>a d. rnd (a / d)) flood_intensity denominator) (\<lambda>flood_weight.
            let conflict_weight = map (\<lambda>w. rnd (1 - w)) flood_weight
            in bind_e (np_binop (\<lambda>w x. rnd (w * x)) flood_weight flood_impact) (\<lambda>flood_part.
               bind_e (np_binop (\<lambda>w y. rnd (w * y)) conflict_weight conflict_impact) (\<lambda>conflict_part.
               bind_e (np_binop (\<lambda>a b. rnd (a + b)) flood_part conflict_part) (\<lambda>combined.
                 Inr (combined, [(''method'', Text ''weighted''), (''interaction'', Number 0.1)]))))))
     else
       sophisticated_combination config flood_intensity conflict_intensity
         flood_impact conflict_impact context)"

subsection \<open>AdaptiveImpactFunction.\_create\_impact\_curve\<close>

text \<open>
  The two intensity grids of \<open>create_contextual_impact_function\<close>:
  \<open>np.arange(0, 6, 0.05)\<close> (120 depths) and \<open>np.arange(0, 250, 2)\<close> (125 counts).
\<close>

definition flood_grid :: "real list" where
  "flood_grid = map (\<lambda>k. real k * 0.05) [0..<120]"

definition conflict_grid :: "real list" where
  "conflict_grid = map (\<lambda>k. real k * 2) [0..<125]"

text \<open>
  The masked assignments of the source are elementwise updates of \<open>mdd\<close> along
  \<open>intensity\<close>. The low-intensity ramp divides only where its mask holds, and there the
  divisor is positive. A zero \<open>intensity_half\<close>, or a zero grid maximum in the early-warning
  scaling, divides by zero; \<open>intensity.max()\<close> of an empty grid raises \<open>ValueError\<close>.
\<close>

definition create_impact_curve ::
  "string \<Rightarrow> real list \<Rightarrow> real \<Rightarrow> real \<Rightarrow> HazardContext \<Rightarrow> error + real list" where
  "create_impact_curve hazard_type intensity threshold intensity_half context =
    (if intensity_half = 0 \<and> intensity \<noteq> [] then Inl NonFinite
     else
       let steepness = (if hazard_type = ''flood'' then 5 else 3);
           mdd = map (\<lambda>x. 1 / (1 + exp (- steepness * (x - intensity_half) / intensity_half)))
                   intensity;
           mdd = map2 (\<lambda>x m. if x < threshold then 0 else m) intensity mdd;
           mdd = map2 (\<lambda>x m. if x \<ge> threshold \<and> x < intensity_half * 0.5
                               then m * (0.5 + 0.5 * ((x - threshold)
                                                       / (intensity_half * 0.5 - threshold)))
                               else m) intensity mdd;
           mdd = map2 (\<lambda>x m. if x > intensity_half * 2
                               then 0.85 + 0.14 * (1 - exp (- (x - intensity_half * 2)
                                                             / intensity_half))
                               else m) intensity mdd
       in if early_warning_coverage context > 0.7 then
            bind_e (np_max intensity) (\<lambda>imax.
              if imax = 0 then Inl NonFinite
              else Inr (map (\<lambda>m. np_clip m 0 0.95)
                          (map2 (\<lambda>x m. m * (0.85 + 0.15 * (x / imax))) intensity mdd)))
          else Inr (map (\<lambda>m. np_clip m 0 0.95) mdd))"

text \<open>
  The same four passes at a single intensity \<open>x\<close>, before scaling and clipping, and the
  two curves they are made of.
\<close>

definition mdd_at :: "string \<Rightarrow> real \<Rightarrow> real \<Rightarrow> real \<Rightarrow> real" where
  "mdd_at hazard_type threshold intensity_half x =
    (let steepness = (if hazard_type = ''flood'' then 5 else 3);
         m = 1 / (1 + exp (- steepness * (x - intensity_half) / intensity_half));
         m = (if x < threshold then 0 else m);
         m = (if x \<ge> threshold \<and> x < intensity_half * 0.5
              then m * (0.5 + 0.5 * ((x - threshold) / (intensity_half * 0.5 - threshold)))
              else m);
         m = (if x > intensity_half * 2
              then 0.85 + 0.14 * (1 - exp (- (x - intensity_half * 2) / intensity_half))
              else m)
     in m)"

definition sigmoid :: "real \<Rightarrow> real \<Rightarrow> real \<Rightarrow> real" where
  "sigmoid steepness h x = 1 / (1 + exp (- steepness * (x - h) / h))"

definition saturation :: "real \<Rightarrow> real \<Rightarrow> real" where
  "saturation h x = 0.85 + 0.14 * (1 - exp (- (x - h * 2) / h))"

definition steepness_of :: "string \<Rightarrow> real" where
  "steepness_of hazard_type = (if hazard_type = ''flood'' then 5 else 3)"

text \<open>
  The breakpoints of \<open>config.forecast.displacement_alert_levels\<close> that the test suite's
  \<open>test_alert_level_determination\<close> presupposes.
\<close>

definition sample_levels :: alert_levels where
  "sample_levels = \<lparr>watch = 5000, advisory = 10000, warning = 25000, emergency = 50000\<rparr>"

text \<open>A configuration with the nominal interaction coefficient 1.3 and empty regional tables.\<close>

definition sample_config :: VulnerabilityConfig where
  "sample_config = \<lparr>flood_params = Map.empty, conflict_params = Map.empty, flood_conflict_interaction = 1.3\<rparr>"

text \<open>
  Reading a broadcast array at position \<open>i\<close>: an array of length one yields its only
  element at every position.
\<close>

definition bget :: "'a list \<Rightarrow> nat \<Rightarrow> 'a" where
  "bget xs i = xs ! (if length xs = 1 then 0 else i)"

definition valid_at :: "'a list \<Rightarrow> nat \<Rightarrow> bool" where
  "valid_at xs i \<longleftrightarrow> length xs = 1 \<or> i < length xs"

section \<open>Properties of the alert engine\<close>

text \<open>
  C7: the alert level of the decision returned by \<open>generate_alert_decision\<close> is the level
  \<open>_determine_alert_level\<close> gives for the mean and the 90th percentile of the forecast
  column (\<open>none\<close> for an empty column), and \<open>should_trigger\<close> is true exactly when that
  level is \<open>warning\<close> or \<open>emergency\<close> and the metrics' confidence level is \<open>high\<close> or
  \<open>medium\<close>; that is, exactly when the column has a 90th percentile at or above the
  \<open>emergency\<close> or the \<open>warning\<close> breakpoint and the confidence level is \<open>high\<close> or
  \<open>medium\<close>. With any other confidence level (\<open>low\<close> among them) it is false whatever the
  severity.
\<close>

theorem should_trigger_iff:
  "alert_level (generate_alert_decision thr rc fmt render fr metrics ctx)
     = (case (series_mean fr, series_quantile fr 0.90) of
          (Some m, Some p) \<Rightarrow> determine_alert_level thr m p
        | _ \<Rightarrow> ''none'')
   \<and> should_trigger (generate_alert_decision thr rc fmt render fr metrics ctx) =
     ((alert_level (generate_alert_decision thr rc fmt render fr metrics ctx) = ''warning''
        \<or> alert_level (generate_alert_decision thr rc fmt render fr metrics ctx) = ''emergency'')
      \<and> (confidence_level metrics = ''high'' \<or> confidence_level metrics = ''medium''))
   \<and> should_trigger (generate_alert_decision thr rc fmt render fr metrics ctx) =
     ((\<exists>p. series_quantile fr 0.90 = Some p \<and> (p \<ge> emergency thr \<or> p \<ge> warning thr))
      \<and> (confidence_level metrics = ''high'' \<or> confidence_level metrics = ''medium''))
   \<and> \<not> should_trigger (generate_alert_decision thr rc fmt render fr
                          (metrics\<lparr>confidence_level := ''low''\<rparr>) ctx)"
  by (auto simp add: generate_alert_decision_def Let_def determine_alert_level_def
        series_mean_def series_quantile_def split: option.splits if_splits)

text \<open>
  Four forecasts under the breakpoints of the test suite: a 90th percentile of 73500 with
  confidence \<open>high\<close> is an \<open>emergency\<close> and triggers; the same forecast with confidence
  \<open>low\<close> is still an \<open>emergency\<close> and does not; a 90th percentile of 29000 with confidence
  \<open>medium\<close> is a \<open>warning\<close> and triggers; a mean of 12000 with a 90th percentile of 12800
  and confidence \<open>high\<close> is an \<open>advisory\<close> and does not.
\<close>

theorem should_trigger_iff_witness:
  "alert_level (generate_alert_decision sample_levels Map.empty (\<lambda>d. []) (\<lambda>l m p s a. [])
       [75000, 60000] \<lparr>quality_score = 0.9, confidence_level = ''high''\<rparr>
       [(''Benue'', benue_context)]) = ''emergency''
   \<and> should_trigger (generate_alert_decision sample_levels Map.empty (\<lambda>d. []) (\<lambda>l m p s a. [])
       [75000, 60000] \<lparr>quality_score = 0.9, confidence_level = ''high''\<rparr>
       [(''Benue'', benue_context)])
   \<and> alert_level (generate_alert_decision sample_levels Map.empty (\<lambda>d. []) (\<lambda>l m p s a. [])
       [75000, 60000] \<lparr>quality_score = 0.9, confidence_level = ''low''\<rparr>
       [(''Benue'', benue_context)]) = ''emergency''
   \<and> \<not> should_trigger (generate_alert_decision sample_levels Map.empty (\<lambda>d. []) (\<lambda>l m p s a. [])
       [75000, 60000] \<lparr>quality_score = 0.9, confidence_level = ''low''\<rparr>
       [(''Benue'', benue_context)])
   \<and> alert_level (generate_alert_decision sample_levels Map.empty (\<lambda>d. []) (\<lambda>l m p s a. [])
       [30000, 20000] \<lparr>quality_score = 0.9, confidence_level = ''medium''\<rparr>
       [(''Benue'', benue_context)]) = ''warning''
   \<and> should_trigger (generate_alert_decision sample_levels Map.empty (\<lambda>d. []) (\<lambda>l m p s a. [])
       [30000, 20000] \<lparr>quality_score = 0.9, confidence_level = ''medium''\<rparr>
       [(''Benue'', benue_context)])
   \<and> alert_level (generate_alert_decision sample_levels Map.empty (\<lambda>d. []) (\<lambda>l m p s a. [])
       [13000, 11000, 12000] \<lparr>quality_score = 0.9, confidence_level = ''high''\<rparr>
       [(''Benue'', benue_context)]) = ''advisory''
   \<and> \<not> should_trigger (generate_alert_decision sample_levels Map.empty (\<lambda>d. []) (\<lambda>l m p s a. [])
       [13000, 11000, 12000] \<lparr>quality_score = 0.9, confidence_level = ''high''\<rparr>
       [(''Benue'', benue_context)])"
proof -
  have q: "series_quantile [75000, 60000] (9 / 10) = Some 73500"
    "series_quantile [30000, 20000] (9 / 10) = Some 29000"
    "series_quantile [13000, 11000, 12000] (9 / 10) = Some 12800"
    by (simp_all add: series_quantile_def Let_def)
  have m: "series_mean [75000, 60000] = Some 67500"
    "series_mean [30000, 20000] = Some 25000"
    "series_mean [13000, 11000, 12000] = Some 12000"
    by (simp_all add: series_mean_def)
  show ?thesis
    using
      should_trigger_iff [of sample_levels Map.empty "\<lambda>d. []" "\<lambda>l m p s a. []" "[75000, 60000]"
        "\<lparr>quality_score = 0.9, confidence_level = ''high''\<rparr>" "[(''Benue'', benue_context)]"]
      should_trigger_iff [of sample_levels Map.empty "\<lambda>d. []" "\<lambda>l m p s a. []" "[75000, 60000]"
        "\<lparr>quality_score = 0.9, confidence_level = ''low''\<rparr>" "[(''Benue'', benue_context)]"]
      should_trigger_iff [of sample_levels Map.empty "\<lambda>d. []" "\<lambda>l m p s a. []" "[30000, 20000]"
        "\<lparr>quality_score = 0.9, confidence_level = ''medium''\<rparr>" "[(''Benue'', benue_context)]"]
      should_trigger_iff [of sample_levels Map.empty "\<lambda>d. []" "\<lambda>l m p s a. []"
        "[13000, 11000, 12000]"
        "\<lparr>quality_score = 0.9, confidence_level = ''high''\<rparr>" "[(''Benue'', benue_context)]"]
    by (simp add: q m determine_alert_level_def sample_levels_def)
qed

text \<open>
  C8: for a fixed mean displacement the alert level of \<open>_determine_alert_level\<close> never
  decreases, in the order \<open>none < watch < advisory < warning < emergency\<close>, when the
  90th percentile grows. The percentile alone decides whether the level is
  \<open>emergency\<close> or \<open>warning\<close>; below both of these breakpoints the mean alone decides
  between \<open>advisory\<close>, \<open>watch\<close> and \<open>none\<close>.
\<close>

theorem determine_alert_level_mono:
  assumes "p \<le> p'"
  shows "level_rank (determine_alert_level thr m p) \<le> level_rank (determine_alert_level thr m p')
    \<and> (determine_alert_level thr m p = ''emergency'' \<longleftrightarrow> p \<ge> emergency thr)
    \<and> (determine_alert_level thr m p = ''warning'' \<longleftrightarrow> p < emergency thr \<and> p \<ge> warning thr)
    \<and> (determine_alert_level thr m p = ''advisory''
           \<longleftrightarrow> p < emergency thr \<and> p < warning thr \<and> m \<ge> advisory thr)
    \<and> (determine_alert_level thr m p = ''watch''
           \<longleftrightarrow> p < emergency thr \<and> p < warning thr \<and> m < advisory thr \<and> m \<ge> watch thr)"
  using assms by (auto simp add: determine_alert_level_def level_rank_def)

theorem determine_alert_level_mono_witness:
  "(8000::real) \<le> 60000
   \<and> level_rank (determine_alert_level
      \<lparr>watch = 5000, advisory = 10000, warning = 25000, emergency = 50000\<rparr> 6000 8000) = 1
   \<and> level_rank (determine_alert_level
      \<lparr>watch = 5000, advisory = 10000, warning = 25000, emergency = 50000\<rparr> 6000 60000) = 4
   \<and> level_rank (determine_alert_level
      \<lparr>watch = 5000, advisory = 10000, warning = 25000, emergency = 50000\<rparr> 6000 8000)
     \<le> level_rank (determine_alert_level
      \<lparr>watch = 5000, advisory = 10000, warning = 25000, emergency = 50000\<rparr> 6000 60000)"
proof -
  have h: "(8000::real) \<le> 60000" by simp
  show ?thesis
    using determine_alert_level_mono
      [OF h, of "\<lparr>watch = 5000, advisory = 10000, warning = 25000, emergency = 50000\<rparr>" 6000]
    by (simp add: determine_alert_level_def level_rank_def)
qed

section \<open>Properties of the quality controller\<close>

text \<open>
  C9: \<open>validate_inputs\<close> returns not-ok exactly when the hazard has no events, the exposure
  has no rows, or the exposure values sum to zero. With events and rows present and a zero
  value sum the result is \<open>(False, ["Exposure values sum to zero"])\<close>, a message that
  contains the word \<open>zero\<close>. When the inputs pass, all-zero intensities and fewer than
  five ensemble members each leave their warning in the returned list and the result is
  still ok.
\<close>

theorem validate_inputs_not_ok_iff:
  "(\<not> fst (validate_inputs hazard exposure)
      \<longleftrightarrow> event_id hazard = [] \<or> gdf_value exposure = [] \<or> sum_list (gdf_value exposure) = 0)
   \<and> (event_id hazard \<noteq> [] \<and> gdf_value exposure \<noteq> [] \<and> sum_list (gdf_value exposure) = 0
      \<longrightarrow> validate_inputs hazard exposure = (False, [''Exposure values sum to zero''])
          \<and> list_all (str_contains ''zero'') (snd (validate_inputs hazard exposure)))
   \<and> (event_id hazard \<noteq> [] \<and> gdf_value exposure \<noteq> [] \<and> sum_list (gdf_value exposure) \<noteq> 0
      \<longrightarrow> fst (validate_inputs hazard exposure)
          \<and> (list_all (\<lambda>x. x = 0) (intensity_data hazard)
               \<longrightarrow> ''Hazard intensity is all zeros'' \<in> set (snd (validate_inputs hazard exposure)))
          \<and> (intensity_rows hazard < 5
               \<longrightarrow> ''Low ensemble size: '' @ str_nat (intensity_rows hazard)
                     \<in> set (snd (validate_inputs hazard exposure))))"
proof -
  have z: "str_contains ''zero'' ''Exposure values sum to zero''"
    by (simp add: str_contains_def upt_rec)
  show ?thesis
    using z by (auto simp add: validate_inputs_def Let_def)
qed

theorem validate_inputs_not_ok_iff_witness:
  "validate_inputs \<lparr>event_id = [1], intensity_data = [2], intensity_rows = 10\<rparr>
                   \<lparr>gdf_value = [0, 0], gdf_has_centr = True\<rparr>
     = (False, [''Exposure values sum to zero''])
   \<and> validate_inputs \<lparr>event_id = [1], intensity_data = [0, 0], intensity_rows = 3\<rparr>
                     \<lparr>gdf_value = [5, 7], gdf_has_centr = True\<rparr>
     = (True, [''Hazard intensity is all zeros'', ''Low ensemble size: 3''])
   \<and> ''Low ensemble size: 3''
       \<in> set (snd (validate_inputs \<lparr>event_id = [1], intensity_data = [0, 0], intensity_rows = 3\<rparr>
                                    \<lparr>gdf_value = [5, 7], gdf_has_centr = True\<rparr>))"
  using validate_inputs_not_ok_iff
      [of "\<lparr>event_id = [1], intensity_data = [2], intensity_rows = 10\<rparr>"
          "\<lparr>gdf_value = [0, 0], gdf_has_centr = True\<rparr>"]
    validate_inputs_not_ok_iff
      [of "\<lparr>event_id = [1], intensity_data = [0, 0], intensity_rows = 3\<rparr>"
          "\<lparr>gdf_value = [5, 7], gdf_has_centr = True\<rparr>"]
  by (simp add: validate_inputs_def str_nat.simps digit_char_def)

section \<open>Properties of the vulnerability estimator\<close>

lemma load_models_absent:
  "init_vulnerability Absent Absent
     = \<lparr>flood_model = None, conflict_model = None, scaler = None, trained = True\<rparr>"
  by (simp add: init_vulnerability_def load_models_def)

lemma load_models_never_fits_scaler: "scaler (init_vulnerability ff cf) = None"
  by (simp add: init_vulnerability_def load_models_def Let_def split: model_file.splits)

lemma load_models_trained_iff:
  "trained (init_vulnerability ff cf) \<longleftrightarrow> ff \<noteq> Unreadable \<and> cf \<noteq> Unreadable"
  by (simp add: init_vulnerability_def load_models_def Let_def split: model_file.splits)

text \<open>
  The fallback itself: with \<open>trained\<close> false, and a table that has the entry
  \<open>North_Central\<close> and a \<open>p50\<close> in every entry, the result is the \<open>p50\<close> of the region's
  entry, or of \<open>North_Central\<close> for a region the table does not know.
\<close>

lemma regional_default_lookup:
  assumes "\<not> trained self"
    and "table = (if ht = ''flood'' then flood_params config else conflict_params config)"
    and "table ''North_Central'' = Some dflt"
    and "\<And>r p. table r = Some p \<Longrightarrow> p ''p50'' \<noteq> None"
  shows "predict_vulnerability config self context ht
           = Inr (the ((case table (region context) of Some p \<Rightarrow> p | None \<Rightarrow> dflt) ''p50''))"
proof -
  have "(case table (region context) of Some p \<Rightarrow> p | None \<Rightarrow> dflt) ''p50'' \<noteq> None"
    using assms(3,4) by (cases "table (region context)") auto
  then show ?thesis
    using assms(1,2,3)
    by (auto simp add: predict_vulnerability_def get_regional_default_def Let_def)
qed

text \<open>
  C1: with no model file on disk \<open>_load_models\<close> loads nothing and still sets
  \<open>trained\<close>, so \<open>predict_vulnerability\<close> passes by the regional lookup and fails in
  \<open>scaler.transform\<close>, for every table, context and hazard type. Even with both files
  readable the scaler is never fitted and the call fails in the same place.
\<close>

theorem predict_vulnerability_no_model_raises:
  "predict_vulnerability config (init_vulnerability Absent Absent) context hazard_type
     = Inl NotFittedError
   \<and> predict_vulnerability config (init_vulnerability (Stored f) (Stored g)) context hazard_type
     = Inl NotFittedError"
  by (simp add: predict_vulnerability_def init_vulnerability_def load_models_def)

section \<open>Properties of the context adjustment\<close>

lemma adjust_for_context_benue: "adjust_for_context 1.5 benue_context = 1.425"
  by (simp add: adjust_for_context_def benue_context_def)

text \<open>
  C4, as the specification states it: the adjusted value would be
  \<open>1.5 * 0.85 * 0.9 * 0.95 * 0.85\<close>. It is not: 0.35 is not below 0.3, 0.55 is neither
  above 0.7 nor below 0.3, and 0.45 is not above 0.5, so only the rural factor applies.
\<close>

theorem adjust_for_context_scenario_counterexample:
  "infrastructure_quality benue_context = 0.35 \<and> poverty_rate benue_context = 0.45
   \<and> early_warning_coverage benue_context = 0.55 \<and> urban_rural benue_context = ''rural''
   \<and> adjust_for_context 1.5 benue_context \<noteq> 1.5 * 0.85 * 0.9 * 0.95 * 0.85"
  by (simp add: adjust_for_context_def benue_context_def)

text \<open>
  C4, amended: for every context with infrastructure quality 0.35, poverty rate 0.45,
  early-warning coverage 0.55 and a rural settlement, \<open>_adjust_for_context\<close> maps the flood
  vulnerability 1.5 to \<open>1.5 * 0.95 = 1.425\<close>.
\<close>

theorem adjust_for_context_scenario:
  assumes "infrastructure_quality c = 0.35" and "poverty_rate c = 0.45"
    and "early_warning_coverage c = 0.55" and "urban_rural c = ''rural''"
  shows "adjust_for_context 1.5 c = 1.5 * 0.95 \<and> adjust_for_context 1.5 c = 1.425"
  using assms by (simp add: adjust_for_context_def)

theorem adjust_for_context_scenario_witness:
  "infrastructure_quality benue_context = 0.35 \<and> poverty_rate benue_context = 0.45
   \<and> early_warning_coverage benue_context = 0.55 \<and> urban_rural benue_context = ''rural''
   \<and> adjust_for_context 1.5 benue_context = 1.425"
proof -
  have h: "infrastructure_quality benue_context = 0.35" "poverty_rate benue_context = 0.45"
    "early_warning_coverage benue_context = 0.55" "urban_rural benue_context = ''rural''"
    by (simp_all add: benue_context_def)
  show ?thesis
    using h adjust_for_context_scenario [OF h] by simp
qed

section \<open>Properties of the hazard combination\<close>

subsection \<open>Broadcasting and the error monad\<close>

lemma bind_e_simps [simp]: "bind_e (Inr u) f = f u" "bind_e (Inl e) f = Inl e"
  by (simp_all add: bind_e_def)

lemma bind_e_InrE:
  assumes "bind_e r f = Inr v"
  obtains u where "r = Inr u" and "f u = Inr v"
  using assms by (cases r) simp_all





lemma valid_at_map [simp]: "valid_at (map g xs) i = valid_at xs i"
  by (simp add: valid_at_def)

lemma bget_map: "valid_at xs i \<Longrightarrow> bget (map g xs) i = g (bget xs i)"
  by (auto simp add: valid_at_def bget_def)


lemma np_binop_same_length [simp]:
  "length xs = length ys \<Longrightarrow> np_binop f xs ys = Inr (map2 f xs ys)"
  by (simp add: np_binop_def)

lemma np_iadd_same_length [simp]:
  "length ys = length xs \<Longrightarrow> np_iadd xs ys = Inr (map2 (+) xs ys)"
  by (simp add: np_iadd_def)

lemma fold_max_ge: "(a::real) \<le> fold max xs a"
proof (induction xs arbitrary: a)
  case Nil
  show ?case by simp
next
  case (Cons x xs)
  have "a \<le> max x a" by simp
  also have "\<dots> \<le> fold max xs (max x a)" by (rule Cons.IH)
  finally show ?case by simp
qed

lemma np_max_nonneg:
  assumes "0 < length xs" and "\<forall>x\<in>set xs. 0 \<le> x"
  shows "\<exists>m. np_max xs = Inr m \<and> 0 \<le> m"
proof (cases xs)
  case Nil
  with assms(1) show ?thesis by simp
next
  case (Cons x rest)
  with assms(2) have "0 \<le> x" by simp
  also have "x \<le> fold max rest x" by (rule fold_max_ge)
  finally show ?thesis using Cons by (simp add: np_max_def)
qed

lemma np_max_nonempty: "0 < length xs \<Longrightarrow> np_max xs = Inr (fold max (tl xs) (hd xs))"
  by (cases xs) (simp_all add: np_max_def)

lemma normalize_returns:
  assumes "0 < length xs" and "\<forall>x\<in>set xs. 0 \<le> x"
  shows "\<exists>ys. normalize xs = Inr ys \<and> length ys = length xs"
proof -
  from np_max_nonneg [OF assms] obtain m where m: "np_max xs = Inr m" "0 \<le> m" by blast
  have "0 < eps" by (simp add: eps_def)
  with m(2) have "m + eps \<noteq> 0" by linarith
  with m(1) show ?thesis by (simp add: normalize_def)
qed

subsection \<open>The three methods\<close>




lemma sophisticated_returns:
  assumes n: "0 < n" and l: "length fi = n" "length ci = n" "length fimp = n" "length cimp = n"
    and nn: "\<forall>x\<in>set fi. 0 \<le> x" "\<forall>y\<in>set ci. 0 \<le> y"
  shows "\<exists>r. sophisticated_combination config fi ci fimp cimp ctx = Inr r"
proof -
  from normalize_returns [of fi] n l nn obtain fn
    where fn: "normalize fi = Inr fn" "length fn = n" by auto
  from normalize_returns [of ci] n l nn obtain cn
    where cn: "normalize ci = Inr cn" "length cn = n" by auto
  show ?thesis
    unfolding sophisticated_combination_def
    using fn cn l n by (simp add: Let_def np_max_nonempty)
qed


text \<open>
  The weighted sum of two one-element arrays, as the branch computes it: the value returned
  is the result of the last rounding, and nothing is applied to it afterwards.
\<close>

lemma weighted_sum_single:
  assumes "rnd (rnd (a + b) + rnd eps) \<noteq> 0"
  shows "combine_hazards rnd config [a] [b] [p] [q] ctx ''weighted_sum''
    = Inr ([rnd (rnd (rnd (a / rnd (rnd (a + b) + rnd eps)) * p)
                 + rnd (rnd (1 - rnd (a / rnd (rnd (a + b) + rnd eps))) * q))],
           [(''method'', Text ''weighted''), (''interaction'', Number 0.1)])"
  using assms by (simp add: combine_hazards_def np_binop_def Let_def)



text \<open>
  C10: every method name other than \<open>simple_max\<close> and \<open>weighted_sum\<close> runs the
  sophisticated combination, exactly as the name \<open>sophisticated\<close> does; no name is
  rejected. On arrays of one common non-zero length with non-negative intensities the call
  returns a result.
\<close>

theorem combine_hazards_unknown_method:
  assumes "method \<noteq> ''simple_max''" and "method \<noteq> ''weighted_sum''"
  shows "combine_hazards rnd config fi ci fimp cimp ctx method
           = combine_hazards rnd config fi ci fimp cimp ctx ''sophisticated''
       \<and> combine_hazards rnd config fi ci fimp cimp ctx method
           = sophisticated_combination config fi ci fimp cimp ctx
       \<and> (0 < length fi \<and> length ci = length fi \<and> length fimp = length fi
            \<and> length cimp = length fi \<and> (\<forall>x\<in>set fi. 0 \<le> x) \<and> (\<forall>y\<in>set ci. 0 \<le> y)
          \<longrightarrow> (\<exists>r. combine_hazards rnd config fi ci fimp cimp ctx method = Inr r))"
proof -
  have e: "combine_hazards rnd config fi ci fimp cimp ctx method
             = sophisticated_combination config fi ci fimp cimp ctx"
    using assms by (simp add: combine_hazards_def)
  have s: "combine_hazards rnd config fi ci fimp cimp ctx ''sophisticated''
             = sophisticated_combination config fi ci fimp cimp ctx"
    by (simp add: combine_hazards_def)
  show ?thesis
    using e s sophisticated_returns [of "length fi" fi ci fimp cimp config ctx] by simp
qed

theorem combine_hazards_unknown_method_witness:
  "''sofisticated'' \<noteq> ''simple_max'' \<and> ''sofisticated'' \<noteq> ''weighted_sum''
   \<and> combine_hazards (\<lambda>x. x) sample_config [3/2, 3/2] [30, 30] [2/5, 2/5] [1/2, 1/2] benue_context ''sofisticated''
       = combine_hazards (\<lambda>x. x) sample_config [3/2, 3/2] [30, 30] [2/5, 2/5] [1/2, 1/2] benue_context ''sophisticated''
   \<and> (\<exists>r. combine_hazards (\<lambda>x. x) sample_config [3/2, 3/2] [30, 30] [2/5, 2/5] [1/2, 1/2]
              benue_context ''sofisticated'' = Inr r)"
proof -
  have m: "''sofisticated'' \<noteq> ''simple_max''" "''sofisticated'' \<noteq> ''weighted_sum''"
    by simp_all
  have w: "0 < length [3/2, 3/2 :: real] \<and> length [30, 30 :: real] = length [3/2, 3/2 :: real]
      \<and> length [2/5, 2/5 :: real] = length [3/2, 3/2 :: real]
      \<and> length [1/2, 1/2 :: real] = length [3/2, 3/2 :: real]
      \<and> (\<forall>x\<in>set [3/2, 3/2 :: real]. 0 \<le> x) \<and> (\<forall>y\<in>set [30, 30 :: real]. 0 \<le> y)"
    by simp
  from combine_hazards_unknown_method
    [OF m, of "\<lambda>x. x" sample_config "[3/2, 3/2]" "[30, 30]" "[2/5, 2/5]" "[1/2, 1/2]" benue_context] w m
  show ?thesis by blast
qed

subsection \<open>Constant arrays\<close>

lemma fold_max_replicate: "fold max (replicate k a) (a::real) = a"
  by (induction k) (simp_all add: funpow_swap1)

lemma np_max_replicate: "0 < n \<Longrightarrow> np_max (replicate n a) = Inr a"
  by (cases n) (simp_all add: np_max_def fold_max_replicate del: fold_replicate)

lemma np_mean_replicate: "0 < n \<Longrightarrow> np_mean (replicate n a) = a"
  by (simp add: np_mean_def sum_list_replicate)

lemma normalize_replicate:
  assumes "0 < n" and "0 < a"
  shows "normalize (replicate n a) = Inr (replicate n (a / (a + eps)))"
proof -
  have "0 < eps" by (simp add: eps_def)
  with assms(2) have "a + eps \<noteq> 0" by linarith
  with assms(1) show ?thesis by (simp add: normalize_def np_max_replicate)
qed

lemma list_ex_replicate: "list_ex P (replicate n x) \<longleftrightarrow> 0 < n \<and> P x"
  by (induction n) auto

lemma np_binop_replicate:
  "np_binop f (replicate n x) (replicate n y) = Inr (replicate n (f x y))"
  by simp

lemma np_iadd_replicate:
  "np_iadd (replicate n x) (replicate n y) = Inr (replicate n (x + y))"
  by simp

lemma bind_e_if: "bind_e (if c then Inr x else Inr y) f = f (if c then x else y)"
  by simp

lemma if_pair: "(if c then (a, b) else (a', b')) = ((if c then a else a'), (if c then b else b'))"
  by simp

lemma if_replicate: "(if c then replicate n p else replicate n q) = replicate n (if c then p else q)"
  by simp

lemma interaction_base_gt:
  assumes "1 < flood_conflict_interaction config"
  shows "1 < interaction_base config ctx"
proof -
  let ?b = "flood_conflict_interaction config"
  have a: "1 < ?b * 1.2" using assms by simp
  have b: "1 < ?b * 1.15" using assms by simp
  have c: "1 < ?b * 1.2 * 1.15" using assms by simp
  show ?thesis
    unfolding interaction_base_def Let_def using assms a b c by (simp split: if_splits)
qed

lemma compounded_gt:
  fixes K u v iq :: real
  assumes K: "1 < K" and u: "0 < u" and v: "0 < v" and iq: "iq \<le> 1"
  shows "0.4 < (if 0.5 < v
                then (if 0.5 < u
                      then max 0.4 0.4 * (1 + (K - 1) * u * v) + 0.15 * u * (1 - iq) * 0.4 * 0.3
                      else max 0.4 0.4 * (1 + (K - 1) * u * v))
                     + 0.10 * v * 0.4 * 0.2
                else if 0.5 < u
                     then max 0.4 0.4 * (1 + (K - 1) * u * v) + 0.15 * u * (1 - iq) * 0.4 * 0.3
                     else max 0.4 0.4 * (1 + (K - 1) * u * v))"
proof -
  define B where "B = (K - 1) * u * v"
  define C where "C = u * (1 - iq)"
  have B: "0 < B" unfolding B_def using K u v by simp
  have C: "0 \<le> C" unfolding C_def using u iq by simp
  have e1: "max 0.4 0.4 * (1 + (K - 1) * u * v) = 0.4 + 0.4 * B" unfolding B_def by simp
  have e2: "0.15 * u * (1 - iq) * 0.4 * 0.3 = 0.018 * C" unfolding C_def by simp
  show ?thesis
    unfolding e1 e2 using B C v by (simp split: if_splits)
qed

lemma sophisticated_constant:
  assumes n: "0 < n"
    and fn: "normalize fi = Inr (replicate n u)" and cn: "normalize ci = Inr (replicate n v)"
    and u: "u > 0.1" and v: "v > 0.1"
    and K: "1 < flood_conflict_interaction config" and iq: "infrastructure_quality ctx \<le> 1"
  shows "\<exists>c metrics. sophisticated_combination config fi ci (replicate n 0.4) (replicate n 0.4) ctx
         = Inr (replicate n (np_clip c 0 0.95), metrics) \<and> 0.4 < c"
proof -
  have u0: "0 < u" and v0: "0 < v" using u v by simp_all
  show ?thesis
    unfolding sophisticated_combination_def
    apply (simp only: fn cn bind_e_simps np_binop_replicate list_ex_replicate n u v simp_thms
        if_True Let_def np_mean_replicate np_iadd_replicate bind_e_if if_pair if_replicate
        prod.case map_replicate np_max_replicate length_replicate)
    apply (rule exI, rule exI, rule conjI, rule refl)
    apply (rule compounded_gt [OF interaction_base_gt [OF K] u0 v0 iq])
    done
qed

text \<open>
  C6: two hazards of constant impact 0.4 whose intensities are constant and positive, so
  that each normalized intensity is the same value close to 1 and the co-occurrence test
  \<open>> 0.1\<close> holds at every position; the configured interaction coefficient is above 1
  and the infrastructure quality is within its scale (at most 1). Then the
  \<open>sophisticated\<close> combination returns, and the mean of its result is strictly above 0.4,
  the mean of the elementwise maximum.
\<close>

theorem compounding_dominance:
  assumes "0 < n" and "0 < a" and "0 < b"
    and "0.1 < a / (a + eps)" and "0.1 < b / (b + eps)"
    and "1 < flood_conflict_interaction config" and "infrastructure_quality ctx \<le> 1"
  shows "\<exists>combined metrics.
           combine_hazards rnd config (replicate n a) (replicate n b)
             (replicate n 0.4) (replicate n 0.4) ctx ''sophisticated'' = Inr (combined, metrics)
           \<and> 0.4 < np_mean combined
           \<and> np_mean (map2 max (replicate n 0.4) (replicate n 0.4)) = 0.4"
proof -
  from sophisticated_constant
    [OF assms(1) normalize_replicate [OF assms(1,2)] normalize_replicate [OF assms(1,3)]
        assms(4,5,6,7)]
  obtain c metrics where
    r: "sophisticated_combination config (replicate n a) (replicate n b)
          (replicate n 0.4) (replicate n 0.4) ctx = Inr (replicate n (np_clip c 0 0.95), metrics)"
    and c: "0.4 < c"
    by blast
  have "0.4 < np_clip c 0 0.95" using c by (simp add: np_clip_def)
  then have "0.4 < np_mean (replicate n (np_clip c 0 0.95))"
    by (simp only: np_mean_replicate [OF assms(1)])
  moreover have "np_mean (map2 max (replicate n 0.4) (replicate n (0.4::real))) = 0.4"
    using assms(1) by (simp add: np_mean_replicate)
  moreover have "combine_hazards rnd config (replicate n a) (replicate n b)
      (replicate n 0.4) (replicate n 0.4) ctx ''sophisticated''
        = Inr (replicate n (np_clip c 0 0.95), metrics)"
    using r by (simp add: combine_hazards_def)
  ultimately show ?thesis by blast
qed

theorem compounding_dominance_witness:
  "(0::nat) < 100 \<and> (0::real) < 3/2 \<and> (0::real) < 30
   \<and> (0.1::real) < (3/2) / (3/2 + eps) \<and> (0.1::real) < 30 / (30 + eps)
   \<and> 1 < flood_conflict_interaction sample_config
   \<and> infrastructure_quality benue_context \<le> 1
   \<and> (\<exists>combined metrics.
           combine_hazards (\<lambda>x. x) sample_config (replicate 100 (3/2)) (replicate 100 30)
             (replicate 100 0.4) (replicate 100 0.4) benue_context ''sophisticated''
             = Inr (combined, metrics)
           \<and> 0.4 < np_mean combined
           \<and> np_mean (map2 max (replicate 100 0.4) (replicate 100 0.4)) = 0.4)"
proof -
  have h: "(0::nat) < 100" "(0::real) < 3/2" "(0::real) < 30"
    "(0.1::real) < (3/2) / (3/2 + eps)" "(0.1::real) < 30 / (30 + eps)"
    "1 < flood_conflict_interaction sample_config"
    "infrastructure_quality benue_context \<le> 1"
    by (simp_all add: eps_def sample_config_def benue_context_def)
  from compounding_dominance [OF h, of "\<lambda>x. x"] h show ?thesis by blast
qed

section \<open>Properties of the impact curve\<close>

subsection \<open>The curve, point by point\<close>

lemma map2_map_same: "map2 f xs (map g xs) = map (\<lambda>x. f x (g x)) xs"
  by (induction xs) simp_all

lemma create_impact_curve_eq:
  "create_impact_curve ht xs t h ctx =
    (if h = 0 \<and> xs \<noteq> [] then Inl NonFinite
     else if early_warning_coverage ctx > 0.7 then
       bind_e (np_max xs) (\<lambda>imax.
         if imax = 0 then Inl NonFinite
         else Inr (map (\<lambda>x. np_clip (mdd_at ht t h x * (0.85 + 0.15 * (x / imax))) 0 0.95) xs))
     else Inr (map (\<lambda>x. np_clip (mdd_at ht t h x) 0 0.95) xs))"
  unfolding create_impact_curve_def mdd_at_def Let_def
  by (simp only: map2_map_same map_map comp_def cong: if_cong)

lemma mdd_at_cases:
  "mdd_at ht t h x =
    (if x > h * 2 then saturation h x
     else if x < t then 0
     else if x < h * 0.5
          then sigmoid (steepness_of ht) h x * (0.5 + 0.5 * ((x - t) / (h * 0.5 - t)))
          else sigmoid (steepness_of ht) h x)"
  unfolding mdd_at_def Let_def sigmoid_def saturation_def steepness_of_def
  by auto

lemma steepness_pos: "0 < steepness_of ht"
  by (simp add: steepness_of_def)

lemma sigmoid_pos: "0 < sigmoid k h x"
proof -
  have "0 < 1 + exp (- k * (x - h) / h)" by (simp add: add_pos_pos)
  then show ?thesis by (simp add: sigmoid_def)
qed

lemma sigmoid_mono:
  assumes "0 < k" and "0 < h" and "x \<le> y"
  shows "sigmoid k h x \<le> sigmoid k h y"
proof -
  have "k * (x - h) \<le> k * (y - h)" using assms(1,3) by simp
  then have "- k * (y - h) / h \<le> - k * (x - h) / h"
    using assms(2) by (simp add: divide_le_cancel)
  then have "1 + exp (- k * (y - h) / h) \<le> 1 + exp (- k * (x - h) / h)" by simp
  moreover have "0 < 1 + exp (- k * (y - h) / h)" by (simp add: add_pos_pos)
  ultimately show ?thesis
    unfolding sigmoid_def by (intro divide_left_mono) (simp_all add: add_pos_pos)
qed

lemma saturation_mono:
  assumes "0 < h" and "x \<le> y"
  shows "saturation h x \<le> saturation h y"
proof -
  have "- (y - h * 2) / h \<le> - (x - h * 2) / h"
    using assms by (simp add: divide_le_cancel)
  then have "exp (- (y - h * 2) / h) \<le> exp (- (x - h * 2) / h)" by simp
  then show ?thesis by (simp add: saturation_def)
qed

lemma saturation_ge:
  assumes "0 < h" and "h * 2 < x"
  shows "0.85 \<le> saturation h x"
proof -
  have "- (x - h * 2) / h \<le> 0" using assms by (simp add: divide_le_0_iff)
  then have "exp (- (x - h * 2) / h) \<le> 1" by simp
  then show ?thesis by (simp add: saturation_def)
qed

lemma half_ramp:
  fixes q r :: real
  shows "0 \<le> q \<Longrightarrow> 0.5 \<le> 0.5 + 0.5 * q"
    and "q \<le> 1 \<Longrightarrow> 0.5 + 0.5 * q \<le> 1"
    and "q \<le> r \<Longrightarrow> 0.5 + 0.5 * q \<le> 0.5 + 0.5 * r"
  by simp_all

lemma ramp_bounds:
  fixes t h x :: real
  assumes "t \<le> x" and "x < h * 0.5"
  shows "0.5 \<le> 0.5 + 0.5 * ((x - t) / (h * 0.5 - t))"
    and "0.5 + 0.5 * ((x - t) / (h * 0.5 - t)) \<le> 1"
proof -
  define d where "d = h * 0.5 - t"
  have d: "0 < d" unfolding d_def using assms by linarith
  have "0 \<le> (x - t) / d" using assms(1) d by simp
  then show "0.5 \<le> 0.5 + 0.5 * ((x - t) / (h * 0.5 - t))"
    unfolding d_def by (rule half_ramp(1))
  have "x - t \<le> d" unfolding d_def using assms(2) by linarith
  then have "(x - t) / d \<le> 1" using d by (simp add: divide_le_eq)
  then show "0.5 + 0.5 * ((x - t) / (h * 0.5 - t)) \<le> 1"
    unfolding d_def by (rule half_ramp(2))
qed

lemma ramp_mono:
  fixes t h x y :: real
  assumes "t \<le> x" and "x \<le> y" and "y < h * 0.5"
  shows "0.5 + 0.5 * ((x - t) / (h * 0.5 - t)) \<le> 0.5 + 0.5 * ((y - t) / (h * 0.5 - t))"
proof -
  define d where "d = h * 0.5 - t"
  have d: "0 < d" unfolding d_def using assms by linarith
  have "(x - t) / d \<le> (y - t) / d"
    using assms(2) d by (simp add: divide_le_cancel)
  then show ?thesis unfolding d_def by (rule half_ramp(3))
qed

lemma mdd_at_nonneg:
  assumes "0 < h"
  shows "0 \<le> mdd_at ht t h x"
proof -
  have s: "0 \<le> sigmoid (steepness_of ht) h x" using sigmoid_pos [of "steepness_of ht" h x] by simp
  consider (hi) "h * 2 < x" | (below) "\<not> h * 2 < x" "x < t"
    | (low) "\<not> h * 2 < x" "t \<le> x" "x < h * 0.5" | (mid) "\<not> h * 2 < x" "t \<le> x" "\<not> x < h * 0.5"
    by linarith
  then show ?thesis
  proof cases
    case hi
    with saturation_ge [OF assms hi] show ?thesis by (simp add: mdd_at_cases)
  next
    case below
    then show ?thesis by (simp add: mdd_at_cases)
  next
    case low
    from ramp_bounds(1) [OF low(2,3)] s
    have "0 \<le> sigmoid (steepness_of ht) h x * (0.5 + 0.5 * ((x - t) / (h * 0.5 - t)))"
      by (intro mult_nonneg_nonneg) simp_all
    with low show ?thesis by (simp add: mdd_at_cases)
  next
    case mid
    with s show ?thesis by (simp add: mdd_at_cases)
  qed
qed

lemma mdd_at_mono_below_saturation:
  assumes h: "0 < h" and tx: "t \<le> x" and xy: "x \<le> y" and y: "y \<le> h * 2"
  shows "mdd_at ht t h x \<le> mdd_at ht t h y"
proof -
  let ?s = "sigmoid (steepness_of ht) h"
  let ?r = "\<lambda>z. 0.5 + 0.5 * ((z - t) / (h * 0.5 - t))"
  have sm: "?s x \<le> ?s y" by (rule sigmoid_mono [OF steepness_pos h xy])
  have sx: "0 \<le> ?s x" using sigmoid_pos [of "steepness_of ht" h x] by simp
  have nx: "\<not> h * 2 < x" "\<not> x < t" and ny: "\<not> h * 2 < y" "\<not> y < t"
    using tx xy y by simp_all
  consider (low) "y < h * 0.5" | (cross) "x < h * 0.5" "\<not> y < h * 0.5" | (mid) "\<not> x < h * 0.5"
    by linarith
  then show ?thesis
  proof cases
    case low
    then have xl: "x < h * 0.5" using xy by simp
    have "?s x * ?r x \<le> ?s y * ?r y"
    proof (rule mult_mono [OF sm ramp_mono [OF tx xy low]])
      show "0 \<le> ?s y" using sigmoid_pos [of "steepness_of ht" h y] by simp
      show "0 \<le> ?r x" using ramp_bounds(1) [OF tx xl] by simp
    qed
    with low xl nx ny show ?thesis by (simp add: mdd_at_cases)
  next
    case cross
    have "?s x * ?r x \<le> ?s x * 1"
      using ramp_bounds(2) [OF tx cross(1)] sx by (intro mult_left_mono) simp_all
    with sm have "?s x * ?r x \<le> ?s y" by simp
    with cross nx ny show ?thesis by (simp add: mdd_at_cases)
  next
    case mid
    then have "\<not> y < h * 0.5" using xy by simp
    with mid sm nx ny show ?thesis by (simp add: mdd_at_cases)
  qed
qed

lemma mdd_at_mono_saturation:
  assumes "0 < h" and "h * 2 < x" and "x \<le> y"
  shows "mdd_at ht t h x \<le> mdd_at ht t h y"
proof -
  have "h * 2 < y" using assms(2,3) by simp
  with assms(2) saturation_mono [OF assms(1,3)] show ?thesis by (simp add: mdd_at_cases)
qed

lemma np_clip_mono: "a \<le> b \<Longrightarrow> np_clip a lo hi \<le> np_clip b lo hi"
  by (simp add: np_clip_def min_def max_def)

lemma scaled_mono:
  fixes a b x y imax :: real
  assumes "a \<le> b" and "0 \<le> a" and "0 \<le> x" and "x \<le> y" and "0 < imax"
  shows "a * (0.85 + 0.15 * (x / imax)) \<le> b * (0.85 + 0.15 * (y / imax))"
proof (rule mult_mono [OF assms(1)])
  have "x / imax \<le> y / imax" using assms(4,5) by (simp add: divide_le_cancel)
  then show "0.85 + 0.15 * (x / imax) \<le> 0.85 + 0.15 * (y / imax)" by simp
  show "0 \<le> b" using assms(1,2) by simp
  have "0 \<le> x / imax" using assms(3,5) by simp
  then show "0 \<le> 0.85 + 0.15 * (x / imax)" by simp
qed

lemma curve_plain:
  assumes "create_impact_curve ht xs t h ctx = Inr mdd"
    and "\<not> early_warning_coverage ctx > 0.7"
  shows "mdd = map (\<lambda>x. np_clip (mdd_at ht t h x) 0 0.95) xs"
  using assms by (simp add: create_impact_curve_eq split: if_splits)

lemma curve_scaled:
  assumes "create_impact_curve ht xs t h ctx = Inr mdd"
    and "early_warning_coverage ctx > 0.7"
  obtains imax where "np_max xs = Inr imax" and "imax \<noteq> 0"
    and "mdd = map (\<lambda>x. np_clip (mdd_at ht t h x * (0.85 + 0.15 * (x / imax))) 0 0.95) xs"
proof -
  from assms have "bind_e (np_max xs) (\<lambda>imax.
         if imax = 0 then Inl NonFinite
         else Inr (map (\<lambda>x. np_clip (mdd_at ht t h x * (0.85 + 0.15 * (x / imax))) 0 0.95) xs))
       = Inr mdd"
    by (simp add: create_impact_curve_eq split: if_splits)
  then obtain imax where i: "np_max xs = Inr imax"
    and e: "(if imax = 0 then Inl NonFinite
         else Inr (map (\<lambda>x. np_clip (mdd_at ht t h x * (0.85 + 0.15 * (x / imax))) 0 0.95) xs))
       = Inr mdd"
    by (rule bind_e_InrE)
  from e have "imax \<noteq> 0"
    and "mdd = map (\<lambda>x. np_clip (mdd_at ht t h x * (0.85 + 0.15 * (x / imax))) 0 0.95) xs"
    by (simp_all split: if_splits)
  with i show ?thesis by (rule that)
qed

lemma flood_grid_nth: "k < 120 \<Longrightarrow> flood_grid ! k = real k * 0.05"
  by (simp add: flood_grid_def)

lemma flood_grid_length: "length flood_grid = 120"
  by (simp add: flood_grid_def)

lemma benue_curve:
  "h \<noteq> 0 \<Longrightarrow> create_impact_curve ht xs t h benue_context
     = Inr (map (\<lambda>x. np_clip (mdd_at ht t h x) 0 0.95) xs)"
  by (simp add: create_impact_curve_eq benue_context_def)

lemma exp_5_ge: "19 \<le> exp (5::real)"
proof -
  have "(2::real) \<le> exp 1" using exp_ge_add_one_self [of "1::real"] by simp
  then have "(2::real) ^ 5 \<le> exp 1 ^ 5" by (intro power_mono) simp_all
  also have "exp (1::real) ^ 5 = exp (of_nat 5 * 1)" by (simp only: exp_of_nat_mult)
  finally show ?thesis by simp
qed

lemma sigmoid_at_saturation_point: "0.95 \<le> sigmoid 5 1 2"
proof -
  have "exp (- 5 :: real) = 1 / exp 5" by (simp add: exp_minus field_simps)
  also have "\<dots> \<le> 1 / 19" using exp_5_ge by (intro divide_left_mono) simp_all
  finally have "1 + exp (- 5 :: real) \<le> 20 / 19" by simp
  then have "1 / (20 / 19) \<le> 1 / (1 + exp (- 5 :: real))"
    by (intro divide_left_mono) (simp_all add: add_pos_pos)
  then show ?thesis by (simp add: sigmoid_def)
qed

lemma saturation_just_above: "saturation 1 (41/20) \<le> 0.857"
proof -
  have "1 + (- (1/20)) \<le> exp (- (1/20) :: real)" by (rule exp_ge_add_one_self)
  then have "1 - exp (- (1/20) :: real) \<le> 1/20" by simp
  then show ?thesis by (simp add: saturation_def)
qed

subsection \<open>Threshold zeroing\<close>

text \<open>
  Below the threshold the curve is zero wherever the saturation regime does not reach:
  at every grid intensity that is below the threshold and at most \<open>2 * intensity_half\<close>.
\<close>

lemma threshold_zeroing_below_saturation:
  assumes r: "create_impact_curve ht xs t h ctx = Inr mdd"
    and i: "i < length xs" and x: "xs ! i < t" and s: "xs ! i \<le> h * 2"
  shows "mdd ! i = 0"
proof -
  have z: "mdd_at ht t h (xs ! i) = 0" using x s by (simp add: mdd_at_cases)
  show ?thesis
  proof (cases "early_warning_coverage ctx > 0.7")
    case False
    from curve_plain [OF r False] i z show ?thesis by (simp add: np_clip_def)
  next
    case True
    from curve_scaled [OF r True] obtain imax
      where "mdd = map (\<lambda>x. np_clip (mdd_at ht t h x * (0.85 + 0.15 * (x / imax))) 0 0.95) xs"
      by blast
    with i z show ?thesis by (simp add: np_clip_def)
  qed
qed

text \<open>
  The saturation mask \<open>intensity > intensity_half * 2\<close> is not restricted to intensities
  at or above the threshold and is applied after the zeroing: a grid intensity between
  \<open>2 * intensity_half\<close> and the threshold gets the saturation value, at least 0.85.
\<close>

lemma threshold_zeroing_above_saturation:
  assumes r: "create_impact_curve ht xs t h ctx = Inr mdd"
    and ew: "\<not> early_warning_coverage ctx > 0.7" and h: "0 < h"
    and i: "i < length xs" and x: "xs ! i < t" and s: "h * 2 < xs ! i"
  shows "0.85 \<le> mdd ! i"
proof -
  have "0.85 \<le> mdd_at ht t h (xs ! i)"
    using saturation_ge [OF h s] s by (simp add: mdd_at_cases)
  then have "0.85 \<le> np_clip (mdd_at ht t h (xs ! i)) 0 0.95" by (simp add: np_clip_def)
  with curve_plain [OF r ew] i show ?thesis by simp
qed

text \<open>
  C2 claims a zero displacement fraction at every grid intensity strictly below the
  threshold. On the flood grid with threshold 0.3 m and half-impact depth 0.1 m the depth
  0.25 m (position 5) is below the threshold and the curve there is at least 0.85.
\<close>

theorem threshold_zeroing_fails:
  "\<not> isl (create_impact_curve ''flood'' flood_grid 0.3 0.1 benue_context)
   \<and> flood_grid ! 5 < 0.3
   \<and> 0.85 \<le> projr (create_impact_curve ''flood'' flood_grid 0.3 0.1 benue_context) ! 5"
proof -
  have a: "mdd_at ''flood'' 0.3 0.1 (flood_grid ! 5) = saturation 0.1 0.25"
    by (simp add: flood_grid_nth mdd_at_cases)
  have s: "0.85 \<le> saturation 0.1 0.25" by (rule saturation_ge) simp_all
  then have v: "0.85 \<le> np_clip (saturation 0.1 0.25) 0 0.95" by (simp add: np_clip_def)
  show ?thesis
    using v by (simp add: benue_curve flood_grid_length a) (simp add: flood_grid_nth)
qed

subsection \<open>Monotonicity\<close>

text \<open>
  C3, as the specification states it: the curve would be non-decreasing over the whole
  grid at and above the threshold, with no drop larger than 0.01. On the flood grid with
  threshold 0.3 m and half-impact depth 1 m the curve is 0.95 at 2.0 m (the clipped
  sigmoid) and at most 0.857 at 2.05 m (the start of the saturation curve).
\<close>

theorem impact_curve_monotone_counterexample:
  "\<not> isl (create_impact_curve ''flood'' flood_grid 0.3 1 benue_context)
   \<and> 0.3 \<le> flood_grid ! 40 \<and> flood_grid ! 40 \<le> flood_grid ! 41
   \<and> projr (create_impact_curve ''flood'' flood_grid 0.3 1 benue_context) ! 41
       < projr (create_impact_curve ''flood'' flood_grid 0.3 1 benue_context) ! 40 - 0.01"
proof -
  have a: "mdd_at ''flood'' 0.3 1 (flood_grid ! 40) = sigmoid 5 1 2"
    by (simp add: flood_grid_nth mdd_at_cases steepness_of_def)
  have b: "mdd_at ''flood'' 0.3 1 (flood_grid ! 41) = saturation 1 (41/20)"
    by (simp add: flood_grid_nth mdd_at_cases)
  have s: "0.85 \<le> saturation 1 (41/20)" by (rule saturation_ge) simp_all
  have v40: "np_clip (sigmoid 5 1 2) 0 0.95 = 0.95"
    using sigmoid_at_saturation_point by (simp add: np_clip_def)
  have v41: "np_clip (saturation 1 (41/20)) 0 0.95 \<le> 0.857"
    using saturation_just_above s by (simp add: np_clip_def)
  show ?thesis
    using v40 v41 by (simp add: benue_curve flood_grid_length a b) (simp add: flood_grid_nth)
qed

text \<open>
  C3, amended: for a positive half-impact parameter and a grid of non-negative
  intensities, the curve is non-decreasing between any two grid intensities at or above
  the threshold that are both at most \<open>2 * intensity_half\<close>, and between any two that
  are both above \<open>2 * intensity_half\<close>. Nothing is claimed across that boundary.
\<close>

theorem impact_curve_monotone_within_regimes:
  assumes r: "create_impact_curve ht xs t h ctx = Inr mdd"
    and h: "0 < h" and nn: "list_all (\<lambda>x. 0 \<le> x) xs"
    and i: "i < length xs" and j: "j < length xs"
    and ij: "xs ! i \<le> xs ! j" and ti: "t \<le> xs ! i"
    and regime: "xs ! j \<le> h * 2 \<or> h * 2 < xs ! i"
  shows "mdd ! i \<le> mdd ! j"
proof -
  have pt: "mdd_at ht t h (xs ! i) \<le> mdd_at ht t h (xs ! j)"
  proof (cases "xs ! j \<le> h * 2")
    case True
    then show ?thesis by (rule mdd_at_mono_below_saturation [OF h ti ij])
  next
    case False
    with regime have "h * 2 < xs ! i" by simp
    then show ?thesis using ij by (rule mdd_at_mono_saturation [OF h])
  qed
  show ?thesis
  proof (cases "early_warning_coverage ctx > 0.7")
    case False
    from curve_plain [OF r False] i j np_clip_mono [OF pt] show ?thesis by simp
  next
    case True
    from curve_scaled [OF r True] obtain imax where m: "np_max xs = Inr imax" "imax \<noteq> 0"
      and e: "mdd = map (\<lambda>x. np_clip (mdd_at ht t h x * (0.85 + 0.15 * (x / imax))) 0 0.95) xs"
      by blast
    have b: "\<forall>x\<in>set xs. 0 \<le> x" using nn by (simp add: list_all_iff)
    have "0 < length xs" using i by (cases xs) simp_all
    from np_max_nonneg [OF this b] m have "0 < imax" by auto
    have xi: "0 \<le> xs ! i" using b i by simp
    have "mdd_at ht t h (xs ! i) * (0.85 + 0.15 * (xs ! i / imax))
            \<le> mdd_at ht t h (xs ! j) * (0.85 + 0.15 * (xs ! j / imax))"
      by (rule scaled_mono [OF pt mdd_at_nonneg [OF h] xi ij \<open>0 < imax\<close>])
    from np_clip_mono [OF this] e i j show ?thesis by simp
  qed
qed

theorem impact_curve_monotone_within_regimes_witness:
  "(0::real) < 1 \<and> 10 < length flood_grid \<and> 20 < length flood_grid
   \<and> flood_grid ! 10 \<le> flood_grid ! 20 \<and> 0.3 \<le> flood_grid ! 10 \<and> flood_grid ! 20 \<le> 1 * 2
   \<and> \<not> isl (create_impact_curve ''flood'' flood_grid 0.3 1 benue_context)
   \<and> projr (create_impact_curve ''flood'' flood_grid 0.3 1 benue_context) ! 10
       \<le> projr (create_impact_curve ''flood'' flood_grid 0.3 1 benue_context) ! 20"
proof -
  have r: "create_impact_curve ''flood'' flood_grid 0.3 1 benue_context
             = Inr (map (\<lambda>x. np_clip (mdd_at ''flood'' 0.3 1 x) 0 0.95) flood_grid)"
    by (rule benue_curve) simp
  have nn: "list_all (\<lambda>x. 0 \<le> x) flood_grid"
    by (simp add: flood_grid_def list_all_iff)
  have g: "(10::nat) < length flood_grid" "(20::nat) < length flood_grid"
    "flood_grid ! 10 \<le> flood_grid ! 20" "0.3 \<le> flood_grid ! 10"
    "flood_grid ! 20 \<le> 1 * 2 \<or> 1 * 2 < flood_grid ! 10"
    by (simp_all add: flood_grid_length flood_grid_nth)
  have h: "(0::real) < 1" by simp
  have "map (\<lambda>x. np_clip (mdd_at ''flood'' 0.3 1 x) 0 0.95) flood_grid ! 10
          \<le> map (\<lambda>x. np_clip (mdd_at ''flood'' 0.3 1 x) 0 0.95) flood_grid ! 20"
    by (rule impact_curve_monotone_within_regimes [OF r h nn g])
  then show ?thesis
    unfolding r by (simp add: flood_grid_length flood_grid_nth)
qed

end
